theory Spec2Isabelle
  imports Main
begin

section \<open>Data model\<close>

text \<open>
  The script \<^verbatim>\<open>scripts/validate-with-pyiceberg.py\<close> talks to three external
  collaborators: the filesystem (\<^verbatim>\<open>os.path.exists\<close>), the catalog
  (\<^verbatim>\<open>load_catalog\<close>, \<^verbatim>\<open>catalog.load_table\<close>) and the loaded table
  (\<^verbatim>\<open>table.location()\<close>, \<^verbatim>\<open>table.schema()\<close>, \<^verbatim>\<open>table.scan().to_pandas()\<close>, ...).
  None of them is code of the repository, so each is a parameter of the model: a value
  that is either the answer or the exception the access raises.

  Exceptions are told apart exactly as the three \<^verbatim>\<open>except\<close> clauses of
  \<^verbatim>\<open>validate_iceberg_table\<close> tell them apart; the string is \<^verbatim>\<open>str(e)\<close>.
  Only subclasses of \<^verbatim>\<open>Exception\<close> are modelled: \<^verbatim>\<open>KeyboardInterrupt\<close> and
  \<^verbatim>\<open>SystemExit\<close> are asynchronous and no answer of a collaborator.
\<close>

datatype exc =
    NoSuchTableError string
  | ModuleNotFoundError string
  | OtherException string

record nested_field =
  field_id :: int
  field_name :: string
  field_type :: string

record iceberg_schema =
  schema_id :: int
  schema_fields :: "nested_field list"

record snapshot =
  snapshot_id :: int
  timestamp_ms :: int
  summary :: "(string \<times> string) list"

text \<open>
  The pandas frame returned by the scan: \<^verbatim>\<open>df.dtypes.items()\<close> is the list of
  (column, dtype) pairs, \<^verbatim>\<open>df.columns\<close> its first components, \<^verbatim>\<open>len(df)\<close> the
  number of rows.
\<close>

record dataframe =
  dtypes :: "(string \<times> string) list"
  rows :: "string list list"

definition columns :: "dataframe \<Rightarrow> string list" where
  "columns df = map fst (dtypes df)"

text \<open>
  The loaded table. Every access the script makes is a field; \<open>Inl e\<close> means that the
  access raises \<open>e\<close>. \<open>scan_to_pandas\<close> is \<^verbatim>\<open>table.scan()\<close> followed by
  \<^verbatim>\<open>scan.to_pandas()\<close> (the script prints nothing between the two).
\<close>

record table =
  location :: "exc + string"
  format_version :: "exc + int"
  table_uuid :: "exc + string"
  schema :: "exc + iceberg_schema"
  snapshots :: "exc + snapshot list"
  current_snapshot :: "exc + snapshot option"
  scan_to_pandas :: "exc + dataframe"
  last_sequence_number :: "exc + int"
  last_updated_ms :: "exc + int"
  properties :: "exc + (string \<times> string) list"

type_synonym catalog = "string \<Rightarrow> exc + table"

record world =
  path_exists :: "string \<Rightarrow> bool"
  load_catalog :: "string \<Rightarrow> exc + catalog"

section \<open>Output\<close>

text \<open>
  A printed line: the text of the \<^verbatim>\<open>print\<close> call with \<open>{}\<close> where the source
  interpolates a value, and the interpolated values in order. Two annotations stand
  for what the text itself carries in the source. The severity is the marker the text
  starts with: the cross mark is an error, the warning sign a warning, everything else
  (check mark, plain text) information. The category is the section of
  \<^verbatim>\<open>validate_iceberg_table\<close> that prints the line, as the source's comments name the
  sections; the lines of the generic handlers and of \<^verbatim>\<open>main\<close> belong to no section.
\<close>

datatype severity = ERROR | WARNING | INFO

datatype category = Metadata | Schema | Snapshot | Scan | General

datatype arg =
    StrArg string
  | IntArg int
  | ListArg "string list"
  | DictArg "(string \<times> string) list"
  | RowsArg "string list list"

datatype line =
  Line (severity_of: severity) (category_of: category) (text_of: string) (args_of: "arg list")

text \<open>
  What a run does, in order: lines printed to standard output, calls of the external
  operations, and the traceback that \<^verbatim>\<open>traceback.print_exc()\<close> writes to standard
  error.
\<close>

datatype call =
    OsPathExists string
  | LoadCatalog string
  | LoadTable string
  | TableScan

datatype event = Print line | Call call | PrintExc exc

fun findings :: "event list \<Rightarrow> line list" where
  "findings [] = []"
| "findings (Print l # es) = l # findings es"
| "findings (e # es) = findings es"

definition with_severity :: "severity \<Rightarrow> line list \<Rightarrow> line list" where
  "with_severity s ls = filter (\<lambda>l. severity_of l = s) ls"

definition with_category :: "category \<Rightarrow> line list \<Rightarrow> line list" where
  "with_category c ls = filter (\<lambda>l. category_of l = c) ls"

definition mentioning :: "arg \<Rightarrow> line list \<Rightarrow> line list" where
  "mentioning a ls = filter (\<lambda>l. a \<in> set (args_of l)) ls"

definition errors_of :: "event list \<Rightarrow> line list" where
  "errors_of tr = with_severity ERROR (findings tr)"

fun calls_of :: "event list \<Rightarrow> call list" where
  "calls_of [] = []"
| "calls_of (Call c # es) = c # calls_of es"
| "calls_of (e # es) = calls_of es"

definition scan_attempted :: "event list \<Rightarrow> bool" where
  "scan_attempted tr = (TableScan \<in> set (calls_of tr))"

section \<open>Running code that prints and may raise\<close>

text \<open>
  A piece of the script yields the events it caused and either the exception that
  ended it or its value.
\<close>

type_synonym 'a run = "event list \<times> (exc + 'a)"

definition ret :: "'a \<Rightarrow> 'a run" where
  "ret x = ([], Inr x)"

definition run_bind :: "'a run \<Rightarrow> ('a \<Rightarrow> 'b run) \<Rightarrow> 'b run" where
  "run_bind m k =
     (case m of
        (tr, Inl e) \<Rightarrow> (tr, Inl e)
      | (tr, Inr x) \<Rightarrow> (case k x of (tr', r) \<Rightarrow> (tr @ tr', r)))"

definition run_then :: "unit run \<Rightarrow> 'b run \<Rightarrow> 'b run" where
  "run_then m k = run_bind m (\<lambda>u. k)"

definition emit :: "line list \<Rightarrow> unit run" where
  "emit ls = (map Print ls, Inr ())"

definition access :: "exc + 'a \<Rightarrow> 'a run" where
  "access r = ([], r)"

definition invoke :: "call \<Rightarrow> exc + 'a \<Rightarrow> 'a run" where
  "invoke c r = ([Call c], r)"

section \<open>validate\_iceberg\_table\<close>

text \<open>
  The loop over \<^verbatim>\<open>schema.fields\<close> (lines 63 to 68), with the flag
  \<^verbatim>\<open>field_id_issues\<close> and the lines printed so far as its state.
\<close>

fun fields_loop :: "nested_field list \<Rightarrow> line list \<times> bool \<Rightarrow> line list \<times> bool" where
  "fields_loop [] st = st"
| "fields_loop (f # fs) (out, field_id_issues) =
     (if field_id f \<le> 0
      then fields_loop fs
             (out @ [Line INFO Schema ''- Field {}: {} ({})''
                       [IntArg (field_id f), StrArg (field_name f), StrArg (field_type f)],
                     Line WARNING Schema ''WARNING: Invalid field ID {}''
                       [IntArg (field_id f)]],
              True)
      else fields_loop fs
             (out @ [Line INFO Schema ''- Field {}: {} ({})''
                       [IntArg (field_id f), StrArg (field_name f), StrArg (field_type f)]],
              field_id_issues))"

text \<open>The loop over the snapshots (lines 80 to 83).\<close>

fun snapshots_loop :: "snapshot list \<Rightarrow> line list" where
  "snapshots_loop [] = []"
| "snapshots_loop (s # ss) =
     Line INFO Snapshot ''- Snapshot {}'' [IntArg (snapshot_id s)] #
     Line INFO Snapshot ''Timestamp: {}'' [IntArg (timestamp_ms s)] #
     Line INFO Snapshot ''Summary: {}'' [DictArg (summary s)] #
     snapshots_loop ss"

text \<open>The loop over \<^verbatim>\<open>df.dtypes.items()\<close> (lines 103 and 104).\<close>

fun dtypes_loop :: "(string \<times> string) list \<Rightarrow> line list" where
  "dtypes_loop [] = []"
| "dtypes_loop ((col, dtype) # cs) =
     Line INFO Scan ''{}: {}'' [StrArg col, StrArg dtype] # dtypes_loop cs"

text \<open>Lines 48 to 55: the header of the loaded table and the format version check.\<close>

definition metadata_section :: "table \<Rightarrow> string \<Rightarrow> unit run" where
  "metadata_section t table_name =
     run_then (emit [Line INFO Metadata ''Successfully loaded table: {}'' [StrArg table_name]])
    (run_bind (access (location t)) (\<lambda>loc.
     run_then (emit [Line INFO Metadata ''Location: {}'' [StrArg loc]])
    (run_bind (access (format_version t)) (\<lambda>v.
     run_then (emit [Line INFO Metadata ''Format version: {}'' [IntArg v]])
    (run_bind (access (table_uuid t)) (\<lambda>u.
     run_then (emit [Line INFO Metadata ''Table UUID: {}'' [StrArg u]])
    (if v \<noteq> 2
     then emit [Line WARNING Metadata ''WARNING: Format version is {}, expected 2'' [IntArg v]]
     else ret ())))))))"

text \<open>Lines 58 to 68: the schema; the value is \<^verbatim>\<open>field_id_issues\<close>.\<close>

definition schema_section :: "table \<Rightarrow> bool run" where
  "schema_section t =
     run_bind (access (schema t)) (\<lambda>s.
     run_then (emit [Line INFO Schema ''Schema validation:'' [],
                     Line INFO Schema ''Schema ID: {}'' [IntArg (schema_id s)],
                     Line INFO Schema ''Field count: {}''
                       [IntArg (int (length (schema_fields s)))]])
    (case fields_loop (schema_fields s) ([], False) of
       (out, field_id_issues) \<Rightarrow> run_then (emit out) (ret field_id_issues)))"

text \<open>Lines 75 to 83: the snapshots.\<close>

definition snapshots_section :: "table \<Rightarrow> unit run" where
  "snapshots_section t =
     run_bind (access (snapshots t)) (\<lambda>ss.
     if ss = []
     then emit [Line WARNING Snapshot ''WARNING: No snapshots found (table is empty)'' []]
     else emit (Line INFO Snapshot ''Snapshots: {}'' [IntArg (int (length ss))]
                # snapshots_loop ss))"

text \<open>Lines 86 to 106: the current snapshot and the scan.\<close>

definition scan_section :: "table \<Rightarrow> unit run" where
  "scan_section t =
     run_bind (access (current_snapshot t)) (\<lambda>cur.
     case cur of
       Some c \<Rightarrow>
         run_then (emit [Line INFO Snapshot ''Current snapshot: {}'' [IntArg (snapshot_id c)],
                         Line INFO Scan ''Scanning table data...'' []])
        (run_bind (invoke TableScan (scan_to_pandas t)) (\<lambda>df.
         run_then (emit [Line INFO Scan ''Record count: {}'' [IntArg (int (length (rows df)))],
                         Line INFO Scan ''Columns: {}'' [ListArg (columns df)]])
        (if length (rows df) > 0
         then emit ([Line INFO Scan ''Sample data (first 5 rows):'' [],
                     Line INFO Scan ''{}'' [RowsArg (take 5 (rows df))],
                     Line INFO Scan ''Column types:'' []]
                    @ dtypes_loop (dtypes df))
         else ret ())))
     | None \<Rightarrow> emit [Line WARNING Snapshot ''No current snapshot (empty table)'' []])"

text \<open>Lines 109 to 116: the additional metadata and the verdict.\<close>

definition summary_section :: "table \<Rightarrow> string \<Rightarrow> bool run" where
  "summary_section t table_name =
     run_then (emit [Line INFO Metadata ''Additional metadata:'' []])
    (run_bind (access (last_sequence_number t)) (\<lambda>n.
     run_then (emit [Line INFO Metadata ''Last sequence number: {}'' [IntArg n]])
    (run_bind (access (last_updated_ms t)) (\<lambda>ms.
     run_then (emit [Line INFO Metadata ''Last updated: {}'' [IntArg ms]])
    (run_bind (access (properties t)) (\<lambda>ps.
     run_then (emit [Line INFO Metadata ''Properties: {}'' [DictArg ps],
                     Line INFO General
                       ''Table {} is valid and compatible with PyIceberg!''
                       [StrArg table_name],
                     Line INFO General
                       ''All checks passed. The table structure conforms to Iceberg v2 specification.''
                       []])
    (ret True)))))))"

text \<open>Lines 48 to 116: everything after the table is loaded.\<close>

definition check_table :: "table \<Rightarrow> string \<Rightarrow> bool run" where
  "check_table t table_name =
     run_then (metadata_section t table_name)
    (run_bind (schema_section t) (\<lambda>field_id_issues.
     if field_id_issues
     then run_then
            (emit [Line ERROR Schema
                     ''Field ID issues detected - schema evolution may not work correctly'' []])
            (ret False)
     else
       run_then (snapshots_section t)
      (run_then (scan_section t)
      (summary_section t table_name))))"

text \<open>Lines 31 to 116: the body of the \<^verbatim>\<open>try\<close>.\<close>

definition try_body :: "world \<Rightarrow> string \<Rightarrow> string \<Rightarrow> bool run" where
  "try_body w warehouse_path table_name =
     run_bind (invoke (OsPathExists warehouse_path) (Inr (path_exists w warehouse_path)))
       (\<lambda>found.
     if \<not> found
     then run_then
            (emit [Line ERROR Metadata ''Warehouse path does not exist: {}''
                     [StrArg warehouse_path]])
            (ret False)
     else
       run_bind (invoke (LoadCatalog warehouse_path) (load_catalog w warehouse_path))
         (\<lambda>catalog.
       run_bind (invoke (LoadTable table_name) (catalog table_name)) (\<lambda>t.
       check_table t table_name)))"

text \<open>Lines 118 to 130: the three \<^verbatim>\<open>except\<close> clauses, in their order.\<close>

fun handle_exception :: "string \<Rightarrow> string \<Rightarrow> exc \<Rightarrow> event list" where
  "handle_exception warehouse_path table_name (NoSuchTableError m) =
     [Print (Line ERROR Metadata ''Table not found: {}'' [StrArg table_name]),
      Print (Line INFO Metadata ''Verify the table exists in warehouse: {}''
               [StrArg warehouse_path])]"
| "handle_exception warehouse_path table_name (ModuleNotFoundError m) =
     [Print (Line ERROR General ''Missing Python module: {}'' [StrArg m]),
      Print (Line INFO General ''Install with: pip install pyiceberg pandas'' [])]"
| "handle_exception warehouse_path table_name (OtherException m) =
     [Print (Line ERROR General ''Validation failed: {}'' [StrArg m]),
      PrintExc (OtherException m)]"

definition validate_iceberg_table :: "world \<Rightarrow> string \<Rightarrow> string \<Rightarrow> event list \<times> bool" where
  "validate_iceberg_table w warehouse_path table_name =
     (case try_body w warehouse_path table_name of
        (tr, Inr verdict) \<Rightarrow> (tr, verdict)
      | (tr, Inl e) \<Rightarrow> (tr @ handle_exception warehouse_path table_name e, False))"

section \<open>main\<close>

definition rule :: line where
  "rule = Line INFO General (replicate 70 (CHR ''='')) []"




section \<open>The state a run observes\<close>

text \<open>
  Modelled from the spec: the library's \<^verbatim>\<open>current_snapshot()\<close> is not code of this
  repository. Section 3 of the spec makes the current snapshot a distinguished pointer
  into the snapshot sequence, or null; \<open>wf_current\<close> is that invariant of valid
  metadata.
\<close>

definition wf_current :: "snapshot list \<Rightarrow> snapshot option \<Rightarrow> bool" where
  "wf_current ss cur = (case cur of None \<Rightarrow> True | Some c \<Rightarrow> c \<in> set ss)"

text \<open>
  The point-in-time state of one table as a run can see it: whether the warehouse path
  exists, and what the catalog of that path answers for that table name.
\<close>

definition observed :: "world \<Rightarrow> string \<Rightarrow> string \<Rightarrow> bool \<times> (exc + (exc + table))" where
  "observed w warehouse_path table_name =
     (path_exists w warehouse_path,
      case load_catalog w warehouse_path of
        Inl e \<Rightarrow> Inl e
      | Inr catalog \<Rightarrow> Inr (catalog table_name))"

section \<open>Example tables\<close>

text \<open>
  The example scenario of the spec: warehouse \<^verbatim>\<open>/tmp/wh\<close>, table \<^verbatim>\<open>orders\<close> with
  the fields 1 and 2, one snapshot and three rows.
\<close>

definition orders_schema :: iceberg_schema where
  "orders_schema = \<lparr>schema_id = 0, schema_fields =
     [\<lparr>field_id = 1, field_name = ''id'', field_type = ''long''\<rparr>,
      \<lparr>field_id = 2, field_name = ''amount'', field_type = ''double''\<rparr>]\<rparr>"

definition first_snapshot :: snapshot where
  "first_snapshot = \<lparr>snapshot_id = 7, timestamp_ms = 1700000000000,
     summary = [(''operation'', ''append'')]\<rparr>"

definition orders_frame :: dataframe where
  "orders_frame = \<lparr>dtypes = [(''id'', ''int64''), (''amount'', ''float64'')],
     rows = [[''1'', ''9.5''], [''2'', ''3.0''], [''3'', ''12.25'']]\<rparr>"

definition orders_table :: table where
  "orders_table = \<lparr>location = Inr ''/tmp/wh/orders'', format_version = Inr 2,
     table_uuid = Inr ''0f0e'', schema = Inr orders_schema,
     snapshots = Inr [first_snapshot], current_snapshot = Inr (Some first_snapshot),
     scan_to_pandas = Inr orders_frame, last_sequence_number = Inr 1,
     last_updated_ms = Inr 1700000000000, properties = Inr []\<rparr>"

text \<open>The same table with a schema whose second field has the identifier 0.\<close>

definition legacy_schema :: iceberg_schema where
  "legacy_schema = \<lparr>schema_id = 0, schema_fields =
     [\<lparr>field_id = 1, field_name = ''id'', field_type = ''long''\<rparr>,
      \<lparr>field_id = 0, field_name = ''amount'', field_type = ''double''\<rparr>]\<rparr>"

definition legacy_table :: table where
  "legacy_table = orders_table\<lparr>schema := Inr legacy_schema\<rparr>"

text \<open>The same table before its first commit: no snapshot, no current snapshot.\<close>

definition empty_table :: table where
  "empty_table = orders_table\<lparr>snapshots := Inr [], current_snapshot := Inr None\<rparr>"

text \<open>
  Two answers that contradict the pointer invariant, to tell the two conditions of the
  script apart: a current snapshot without a snapshot list, and a snapshot list without
  a current snapshot.
\<close>

definition dangling_table :: table where
  "dangling_table = orders_table\<lparr>snapshots := Inr []\<rparr>"

definition detached_table :: table where
  "detached_table = orders_table\<lparr>current_snapshot := Inr None\<rparr>"

text \<open>The same table with a data file that does not decode.\<close>

definition corrupt_table :: table where
  "corrupt_table = orders_table\<lparr>scan_to_pandas := Inl (OtherException ''corrupt file'')\<rparr>"

text \<open>A catalog that knows the one table \<^verbatim>\<open>orders\<close>, and worlds around it.\<close>

definition orders_catalog :: "table \<Rightarrow> catalog" where
  "orders_catalog t =
     (\<lambda>n. if n = ''orders'' then Inr t else Inl (NoSuchTableError ''no such table''))"

definition warehouse_with :: "table \<Rightarrow> world" where
  "warehouse_with t =
     \<lparr>path_exists = (\<lambda>p. p = ''/tmp/wh''),
      load_catalog = (\<lambda>p. Inr (orders_catalog t))\<rparr>"

definition two_warehouses :: "table \<Rightarrow> world" where
  "two_warehouses t =
     \<lparr>path_exists = (\<lambda>p. p = ''/tmp/wh'' \<or> p = ''/tmp/other''),
      load_catalog = (\<lambda>p. if p = ''/tmp/wh'' then Inr (orders_catalog t)
                           else Inl (OtherException ''not a warehouse''))\<rparr>"

section \<open>Output that may fail\<close>

text \<open>
  \<^verbatim>\<open>print\<close> raises when standard output refuses the text: \<^verbatim>\<open>UnicodeEncodeError\<close>
  when the encoding of the stream has no cross mark, \<^verbatim>\<open>ValueError\<close> or \<^verbatim>\<open>OSError\<close>
  when the stream is closed. The same holds for \<^verbatim>\<open>traceback.print_exc()\<close> and standard
  error. A stream is given by the exception, if any, with which it refuses an output.
\<close>

record streams =
  stdout :: "line \<Rightarrow> exc option"
  stderr :: "exc \<Rightarrow> exc option"

text \<open>External calls write nothing: their failures are the answers of the world.\<close>

fun refused :: "streams \<Rightarrow> event \<Rightarrow> exc option" where
  "refused io (Print l) = stdout io l"
| "refused io (PrintExc e) = stderr io e"
| "refused io (Call c) = None"

text \<open>
  A \<^verbatim>\<open>print\<close> has no value and decides no branch. So a piece of the script on given
  streams does what it does above up to the first output that is refused: the events
  before it have happened, and the exception of that output is raised in its place.
\<close>

fun replay :: "streams \<Rightarrow> event list \<Rightarrow> event list \<times> exc option" where
  "replay io [] = ([], None)"
| "replay io (ev # evs) =
     (case refused io ev of
        Some e \<Rightarrow> ([], Some e)
      | None \<Rightarrow> (case replay io evs of (done, r) \<Rightarrow> (ev # done, r)))"

text \<open>
  The body of the \<^verbatim>\<open>try\<close> on given streams: a refused output raises inside the
  \<^verbatim>\<open>try\<close>, like an exception of a collaborator.
\<close>

definition try_body_on :: "streams \<Rightarrow> world \<Rightarrow> string \<Rightarrow> string \<Rightarrow> bool run" where
  "try_body_on io w warehouse_path table_name =
     (case try_body w warehouse_path table_name of
        (tr, r) \<Rightarrow>
          (case replay io tr of
             (done, Some e) \<Rightarrow> (done, Inl e)
           | (done, None) \<Rightarrow> (done, r)))"

text \<open>
  \<^verbatim>\<open>validate_iceberg_table\<close> on given streams. The handlers print too (lines 119 to
  129), outside any \<^verbatim>\<open>try\<close>: an output refused there leaves the function with its
  exception.
\<close>

definition validate_iceberg_table_on ::
  "streams \<Rightarrow> world \<Rightarrow> string \<Rightarrow> string \<Rightarrow> event list \<times> (exc + bool)" where
  "validate_iceberg_table_on io w warehouse_path table_name =
     (case try_body_on io w warehouse_path table_name of
        (tr, Inr verdict) \<Rightarrow> (tr, Inr verdict)
      | (tr, Inl e) \<Rightarrow>
          (case replay io (handle_exception warehouse_path table_name e) of
             (done, None) \<Rightarrow> (tr @ done, Inr False)
           | (done, Some e') \<Rightarrow> (tr @ done, Inl e')))"

text \<open>Streams that take everything.\<close>

definition working_streams :: streams where
  "working_streams = \<lparr>stdout = (\<lambda>l. None), stderr = (\<lambda>e. None)\<rparr>"

text \<open>
  A standard output whose encoding has neither the cross mark nor the warning sign, as
  ASCII or cp1252: every line of severity ERROR or WARNING starts with one of them in the
  source. (Such an encoding refuses the check mark too; the lines do not record which
  plain lines carry one, and the run below that uses these streams prints none.)
\<close>

definition markless_streams :: streams where
  "markless_streams =
     \<lparr>stdout = (\<lambda>l. if severity_of l = INFO then None
                      else Some (OtherException ''UnicodeEncodeError'')),
      stderr = (\<lambda>e. None)\<rparr>"

text \<open>A standard output that cannot encode the location of the table.\<close>

definition narrow_streams :: streams where
  "narrow_streams =
     \<lparr>stdout = (\<lambda>l. if l = Line INFO Metadata ''Location: {}'' [StrArg ''/tmp/wh/orders'']
                      then Some (OtherException ''UnicodeEncodeError'') else None),
      stderr = (\<lambda>e. None)\<rparr>"

section \<open>Traces and sections\<close>

lemma findings_append [simp]: "findings (xs @ ys) = findings xs @ findings ys"
  by (induction xs rule: findings.induct) simp_all

lemma findings_map_Print [simp]: "findings (map Print ls) = ls"
  by (induction ls) simp_all

lemma calls_of_append [simp]: "calls_of (xs @ ys) = calls_of xs @ calls_of ys"
  by (induction xs rule: calls_of.induct) simp_all

lemma calls_of_map_Print [simp]: "calls_of (map Print ls) = []"
  by (induction ls) simp_all

lemma with_severity_append [simp]:
  "with_severity s (xs @ ys) = with_severity s xs @ with_severity s ys"
  by (simp add: with_severity_def)

lemma with_category_append [simp]:
  "with_category c (xs @ ys) = with_category c xs @ with_category c ys"
  by (simp add: with_category_def)

lemma errors_of_append [simp]: "errors_of (xs @ ys) = errors_of xs @ errors_of ys"
  by (simp add: errors_of_def)

lemma scan_attempted_append [simp]:
  "scan_attempted (xs @ ys) = (scan_attempted xs \<or> scan_attempted ys)"
  by (simp add: scan_attempted_def)

lemma fields_loop_out:
  "fst (fields_loop fs (out, b)) = out @ fst (fields_loop fs ([], False))"
proof (induction fs arbitrary: out b)
  case Nil
  show ?case by simp
next
  case (Cons f fs)
  show ?case
    using Cons.IH [of "out @ [x]" True for x] Cons.IH [of "[x, y]" True for x y]
      Cons.IH [of "out @ [x, y]" True for x y]
      Cons.IH [of "out @ [x]" b for x] Cons.IH [of "[x]" False for x]
    by simp
qed

lemma fields_loop_flag:
  "snd (fields_loop fs (out, b)) = (b \<or> (\<exists>f \<in> set fs. field_id f \<le> 0))"
  by (induction fs arbitrary: out b) auto

lemma fields_loop_lines:
  "l \<in> set (fst (fields_loop fs ([], False))) \<Longrightarrow>
     category_of l = Schema \<and> severity_of l \<noteq> ERROR"
proof (induction fs)
  case Nil
  then show ?case by simp
next
  case (Cons f fs)
  then show ?case
    using fields_loop_out [of fs "[x, y]" True for x y] fields_loop_out [of fs "[x]" False for x]
    by (auto split: if_splits)
qed

lemma fields_loop_warning:
  "f \<in> set fs \<Longrightarrow> field_id f \<le> 0 \<Longrightarrow>
     Line WARNING Schema ''WARNING: Invalid field ID {}'' [IntArg (field_id f)]
       \<in> set (fst (fields_loop fs (out, b)))"
proof (induction fs arbitrary: out b)
  case Nil
  then show ?case by simp
next
  case (Cons g fs)
  show ?case
  proof (cases "f = g")
    case True
    then show ?thesis
      using Cons.prems fields_loop_out [of fs "out @ [x, y]" True for x y] by simp
  next
    case False
    then show ?thesis using Cons by auto
  qed
qed

lemma with_severity_none:
  "(\<And>l. l \<in> set ls \<Longrightarrow> severity_of l \<noteq> s) \<Longrightarrow> with_severity s ls = []"
  by (induction ls) (simp_all add: with_severity_def)

lemma with_category_none:
  "(\<And>l. l \<in> set ls \<Longrightarrow> category_of l \<noteq> c) \<Longrightarrow> with_category c ls = []"
  by (induction ls) (simp_all add: with_category_def)

lemma fst_run_bind:
  "fst (run_bind m k) = fst m @ (case snd m of Inl e \<Rightarrow> [] | Inr x \<Rightarrow> fst (k x))"
  by (simp add: run_bind_def split: prod.splits sum.splits)

lemma snd_run_bind:
  "snd (run_bind m k) = (case snd m of Inl e \<Rightarrow> Inl e | Inr x \<Rightarrow> snd (k x))"
  by (simp add: run_bind_def split: prod.splits sum.splits)

lemma fst_run_then:
  "fst (run_then m k) = fst m @ (case snd m of Inl e \<Rightarrow> [] | Inr x \<Rightarrow> fst k)"
  by (simp add: run_then_def fst_run_bind)

lemma snd_run_then:
  "snd (run_then m k) = (case snd m of Inl e \<Rightarrow> Inl e | Inr x \<Rightarrow> snd k)"
  by (simp add: run_then_def snd_run_bind)

lemma run_prims:
  "fst (ret x) = []" "snd (ret x) = Inr x"
  "fst (emit ls) = map Print ls" "snd (emit ls) = Inr ()"
  "fst (access r) = []" "snd (access r) = r"
  "fst (invoke c r) = [Call c]" "snd (invoke c r) = r"
  by (simp_all add: ret_def emit_def access_def invoke_def)

lemmas run_simps = fst_run_bind snd_run_bind fst_run_then snd_run_then run_prims

lemma snd_metadata_section:
  "location t = Inr loc \<Longrightarrow> format_version t = Inr v \<Longrightarrow> table_uuid t = Inr u \<Longrightarrow>
     snd (metadata_section t n) = Inr ()"
  by (simp add: metadata_section_def run_simps)

lemma metadata_section_lines:
  "l \<in> set (findings (fst (metadata_section t n))) \<Longrightarrow>
     category_of l = Metadata \<and> severity_of l \<noteq> ERROR"
  by (auto simp: metadata_section_def run_simps split: sum.splits if_splits)

lemma calls_metadata_section: "calls_of (fst (metadata_section t n)) = []"
  by (simp add: metadata_section_def run_simps split: sum.splits)

lemma snd_schema_section:
  "schema t = Inr s \<Longrightarrow>
     snd (schema_section t) = Inr (\<exists>f \<in> set (schema_fields s). field_id f \<le> 0)"
  using fields_loop_flag [of "schema_fields s" "[]" False]
  by (simp add: schema_section_def run_simps case_prod_beta)

lemma schema_section_lines:
  "l \<in> set (findings (fst (schema_section t))) \<Longrightarrow>
     category_of l = Schema \<and> severity_of l \<noteq> ERROR"
proof (cases "schema t")
  case (Inl e)
  assume "l \<in> set (findings (fst (schema_section t)))"
  with Inl show ?thesis by (simp add: schema_section_def run_simps)
next
  case (Inr s)
  assume "l \<in> set (findings (fst (schema_section t)))"
  with Inr have "l \<in> set [Line INFO Schema ''Schema validation:'' [],
                     Line INFO Schema ''Schema ID: {}'' [IntArg (schema_id s)],
                     Line INFO Schema ''Field count: {}''
                       [IntArg (int (length (schema_fields s)))]]
      \<or> l \<in> set (fst (fields_loop (schema_fields s) ([], False)))"
    by (auto simp: schema_section_def run_simps case_prod_beta)
  then show ?thesis using fields_loop_lines [of l "schema_fields s"] by auto
qed

lemma calls_schema_section: "calls_of (fst (schema_section t)) = []"
  by (simp add: schema_section_def run_simps case_prod_beta split: sum.splits)

lemma schema_section_warning:
  "schema t = Inr s \<Longrightarrow> f \<in> set (schema_fields s) \<Longrightarrow> field_id f \<le> 0 \<Longrightarrow>
     Line WARNING Schema ''WARNING: Invalid field ID {}'' [IntArg (field_id f)]
       \<in> set (findings (fst (schema_section t)))"
  using fields_loop_warning [of f "schema_fields s" "[]" False]
  by (simp add: schema_section_def run_simps case_prod_beta)

lemma snapshots_loop_lines:
  "l \<in> set (snapshots_loop ss) \<Longrightarrow> category_of l = Snapshot \<and> severity_of l \<noteq> ERROR"
  by (induction ss) auto

lemma dtypes_loop_lines:
  "l \<in> set (dtypes_loop cs) \<Longrightarrow> category_of l = Scan \<and> severity_of l \<noteq> ERROR"
  by (induction cs rule: dtypes_loop.induct) auto

lemma snd_snapshots_section:
  "snapshots t = Inr ss \<Longrightarrow> snd (snapshots_section t) = Inr ()"
  by (simp add: snapshots_section_def run_simps)

lemma snapshots_section_lines:
  "l \<in> set (findings (fst (snapshots_section t))) \<Longrightarrow>
     category_of l = Snapshot \<and> severity_of l \<noteq> ERROR"
  using snapshots_loop_lines [of l]
  by (auto simp: snapshots_section_def run_simps split: sum.splits if_splits)

lemma calls_snapshots_section: "calls_of (fst (snapshots_section t)) = []"
  by (simp add: snapshots_section_def run_simps split: sum.splits)

lemma snapshots_section_empty:
  "snapshots t = Inr [] \<Longrightarrow>
     findings (fst (snapshots_section t)) =
       [Line WARNING Snapshot ''WARNING: No snapshots found (table is empty)'' []]"
  by (simp add: snapshots_section_def run_simps)

lemma snd_scan_section_none:
  "current_snapshot t = Inr None \<Longrightarrow> snd (scan_section t) = Inr ()"
  by (simp add: scan_section_def run_simps)

lemma snd_scan_section_some:
  "current_snapshot t = Inr (Some c) \<Longrightarrow> scan_to_pandas t = Inr df \<Longrightarrow>
     snd (scan_section t) = Inr ()"
  by (simp add: scan_section_def run_simps)

lemma scan_section_lines:
  "l \<in> set (findings (fst (scan_section t))) \<Longrightarrow>
     (category_of l = Snapshot \<or> category_of l = Scan) \<and> severity_of l \<noteq> ERROR"
  using dtypes_loop_lines [of l]
  by (auto simp: scan_section_def run_simps split: sum.splits option.splits if_splits)

lemma calls_scan_section:
  "calls_of (fst (scan_section t)) =
     (case current_snapshot t of Inr (Some c) \<Rightarrow> [TableScan] | _ \<Rightarrow> [])"
  by (simp add: scan_section_def run_simps split: sum.splits option.splits)


lemma snd_summary_section:
  "last_sequence_number t = Inr k \<Longrightarrow> last_updated_ms t = Inr ms \<Longrightarrow>
   properties t = Inr ps \<Longrightarrow> snd (summary_section t n) = Inr True"
  by (simp add: summary_section_def run_simps)

lemma summary_section_lines:
  "l \<in> set (findings (fst (summary_section t n))) \<Longrightarrow>
     (category_of l = Metadata \<or> category_of l = General) \<and> severity_of l \<noteq> ERROR"
  by (auto simp: summary_section_def run_simps split: sum.splits)

lemma calls_summary_section: "calls_of (fst (summary_section t n)) = []"
  by (simp add: summary_section_def run_simps split: sum.splits)

lemma validate_alt:
  "validate_iceberg_table w p n =
     (case snd (try_body w p n) of
        Inr v \<Rightarrow> (fst (try_body w p n), v)
      | Inl e \<Rightarrow> (fst (try_body w p n) @ handle_exception p n e, False))"
  by (simp add: validate_iceberg_table_def split: prod.splits sum.splits)

lemma try_body_missing:
  "\<not> path_exists w p \<Longrightarrow>
     try_body w p n =
       ([Call (OsPathExists p),
         Print (Line ERROR Metadata ''Warehouse path does not exist: {}'' [StrArg p])],
        Inr False)"
  by (simp add: try_body_def run_bind_def run_then_def invoke_def emit_def ret_def)

lemma try_body_no_catalog:
  "path_exists w p \<Longrightarrow> load_catalog w p = Inl e \<Longrightarrow>
     try_body w p n = ([Call (OsPathExists p), Call (LoadCatalog p)], Inl e)"
  by (simp add: try_body_def run_bind_def invoke_def)

lemma try_body_no_table:
  "path_exists w p \<Longrightarrow> load_catalog w p = Inr cat \<Longrightarrow> cat n = Inl e \<Longrightarrow>
     try_body w p n =
       ([Call (OsPathExists p), Call (LoadCatalog p), Call (LoadTable n)], Inl e)"
  by (simp add: try_body_def run_bind_def invoke_def)

lemma try_body_loaded:
  "path_exists w p \<Longrightarrow> load_catalog w p = Inr cat \<Longrightarrow> cat n = Inr t \<Longrightarrow>
     try_body w p n =
       ([Call (OsPathExists p), Call (LoadCatalog p), Call (LoadTable n)]
          @ fst (check_table t n),
        snd (check_table t n))"
  by (simp add: try_body_def run_bind_def invoke_def split: prod.splits)

lemma errors_of_simps [simp]:
  "errors_of [] = []"
  "errors_of (Print l # tr) = (if severity_of l = ERROR then l # errors_of tr else errors_of tr)"
  "errors_of (Call c # tr) = errors_of tr"
  "errors_of (PrintExc e # tr) = errors_of tr"
  by (simp_all add: errors_of_def with_severity_def)

lemma errors_of_none:
  "(\<And>l. l \<in> set (findings tr) \<Longrightarrow> severity_of l \<noteq> ERROR) \<Longrightarrow> errors_of tr = []"
  by (simp add: errors_of_def with_severity_none)

lemma errors_metadata_section: "errors_of (fst (metadata_section t n)) = []"
  by (rule errors_of_none) (simp add: metadata_section_lines)

lemma errors_schema_section: "errors_of (fst (schema_section t)) = []"
  by (rule errors_of_none) (simp add: schema_section_lines)

lemma errors_snapshots_section: "errors_of (fst (snapshots_section t)) = []"
  by (rule errors_of_none) (simp add: snapshots_section_lines)

lemma errors_scan_section: "errors_of (fst (scan_section t)) = []"
  by (rule errors_of_none) (simp add: scan_section_lines)

lemma errors_summary_section: "errors_of (fst (summary_section t n)) = []"
  by (rule errors_of_none) (simp add: summary_section_lines)

lemmas errors_sections = errors_metadata_section errors_schema_section
  errors_snapshots_section errors_scan_section errors_summary_section

lemmas calls_sections = calls_metadata_section calls_schema_section
  calls_snapshots_section calls_summary_section

text \<open>A run that finds a field identifier that is not positive.\<close>

lemma check_table_issues:
  assumes "location t = Inr loc" and "format_version t = Inr v" and "table_uuid t = Inr u"
    and "schema t = Inr s" and "f \<in> set (schema_fields s)" and "field_id f \<le> 0"
  shows "check_table t n =
     (fst (metadata_section t n) @ fst (schema_section t)
        @ [Print (Line ERROR Schema
             ''Field ID issues detected - schema evolution may not work correctly'' [])],
      Inr False)"
proof -
  have m: "snd (metadata_section t n) = Inr ()"
    using assms by (simp add: snd_metadata_section)
  have "\<exists>f \<in> set (schema_fields s). field_id f \<le> 0"
    using assms by blast
  then have s: "snd (schema_section t) = Inr True"
    using assms(4) by (simp add: snd_schema_section)
  show ?thesis
    by (rule prod_eqI) (simp_all add: check_table_def run_simps m s)
qed

text \<open>A run whose field identifiers are all positive goes on to the later sections.\<close>

lemma check_table_clean:
  assumes "location t = Inr loc" and "format_version t = Inr v" and "table_uuid t = Inr u"
    and "schema t = Inr s" and "\<forall>f \<in> set (schema_fields s). 0 < field_id f"
    and "snapshots t = Inr ss"
  shows "check_table t n =
     (fst (metadata_section t n) @ fst (schema_section t) @ fst (snapshots_section t)
        @ fst (scan_section t)
        @ (case snd (scan_section t) of Inl e \<Rightarrow> [] | Inr x \<Rightarrow> fst (summary_section t n)),
      case snd (scan_section t) of Inl e \<Rightarrow> Inl e | Inr x \<Rightarrow> snd (summary_section t n))"
proof -
  have m: "snd (metadata_section t n) = Inr ()"
    using assms by (simp add: snd_metadata_section)
  have "\<not> (\<exists>f \<in> set (schema_fields s). field_id f \<le> 0)"
    using assms(5) by (simp add: not_le)
  then have s: "snd (schema_section t) = Inr False"
    using assms(4) by (simp add: snd_schema_section)
  have p: "snd (snapshots_section t) = Inr ()"
    using assms(6) by (simp add: snd_snapshots_section)
  show ?thesis
    by (rule prod_eqI) (simp_all add: check_table_def run_simps m s p)
qed

text \<open>No error line has been printed when the body of the \<^verbatim>\<open>try\<close> raises.\<close>

lemma check_table_raises:
  assumes "snd (check_table t n) = Inl e"
  shows "errors_of (fst (check_table t n)) = []"
  using assms
  by (simp add: check_table_def run_simps errors_sections split: sum.splits if_splits)

lemma try_body_raises:
  assumes "snd (try_body w p n) = Inl e"
  shows "errors_of (fst (try_body w p n)) = []"
proof (cases "path_exists w p")
  case False
  with assms show ?thesis by (simp add: try_body_missing)
next
  case True
  show ?thesis
  proof (cases "load_catalog w p")
    case (Inl e')
    with True show ?thesis by (simp add: try_body_no_catalog)
  next
    case (Inr cat)
    show ?thesis
    proof (cases "cat n")
      case (Inl e')
      with True Inr show ?thesis
        by (simp add: try_body_no_table)
    next
      case (Inr t)
      with True \<open>load_catalog w p = Inr cat\<close> assms show ?thesis
        using check_table_raises [of t n e]
        by (simp add: try_body_loaded)
    qed
  qed
qed

lemma with_category_simps [simp]:
  "with_category c [] = []"
  "with_category c (l # ls) = (if category_of l = c then l # with_category c ls else with_category c ls)"
  by (simp_all add: with_category_def)

lemma scan_attempted_simps [simp]:
  "scan_attempted [] = False"
  "scan_attempted (Print l # tr) = scan_attempted tr"
  "scan_attempted (PrintExc e # tr) = scan_attempted tr"
  "scan_attempted (Call c # tr) = (c = TableScan \<or> scan_attempted tr)"
  by (auto simp: scan_attempted_def)

lemma scan_attempted_calls: "calls_of tr = [] \<Longrightarrow> \<not> scan_attempted tr"
  by (simp add: scan_attempted_def)

lemma scan_attempted_scan_section:
  "scan_attempted (fst (scan_section t)) = (\<exists>c. current_snapshot t = Inr (Some c))"
  by (cases "current_snapshot t")
    (auto simp: scan_attempted_def calls_scan_section split: option.splits)

lemma category_metadata_section:
  "c \<noteq> Metadata \<Longrightarrow> with_category c (findings (fst (metadata_section t n))) = []"
  by (rule with_category_none) (auto dest: metadata_section_lines)

lemma category_schema_section:
  "c \<noteq> Schema \<Longrightarrow> with_category c (findings (fst (schema_section t))) = []"
  by (rule with_category_none) (auto dest: schema_section_lines)

text \<open>The whole run when a field identifier is not positive.\<close>

lemma run_with_issues:
  assumes "path_exists w p" and "load_catalog w p = Inr cat" and "cat n = Inr t"
    and "location t = Inr loc" and "format_version t = Inr v" and "table_uuid t = Inr u"
    and "schema t = Inr s" and "f \<in> set (schema_fields s)" and "field_id f \<le> 0"
  shows "validate_iceberg_table w p n =
     ([Call (OsPathExists p), Call (LoadCatalog p), Call (LoadTable n)]
        @ fst (metadata_section t n) @ fst (schema_section t)
        @ [Print (Line ERROR Schema
             ''Field ID issues detected - schema evolution may not work correctly'' [])],
      False)"
  using assms(1-3) check_table_issues [OF assms(4-9), of n]
  by (simp add: validate_alt try_body_loaded)

text \<open>The whole run when every field identifier is positive and the snapshots are read.\<close>

lemma run_clean:
  assumes "path_exists w p" and "load_catalog w p = Inr cat" and "cat n = Inr t"
    and "location t = Inr loc" and "format_version t = Inr v" and "table_uuid t = Inr u"
    and "schema t = Inr s" and "\<forall>f \<in> set (schema_fields s). 0 < field_id f"
    and "snapshots t = Inr ss"
  shows "try_body w p n =
     ([Call (OsPathExists p), Call (LoadCatalog p), Call (LoadTable n)]
        @ fst (metadata_section t n) @ fst (schema_section t) @ fst (snapshots_section t)
        @ fst (scan_section t)
        @ (case snd (scan_section t) of Inl e \<Rightarrow> [] | Inr x \<Rightarrow> fst (summary_section t n)),
      case snd (scan_section t) of Inl e \<Rightarrow> Inl e | Inr x \<Rightarrow> snd (summary_section t n))"
  using assms(1-3) check_table_clean [OF assms(4-9), of n]
  by (simp add: try_body_loaded)

lemmas run_defs = run_bind_def run_then_def ret_def emit_def access_def invoke_def

lemmas body_defs = validate_iceberg_table_def try_body_def check_table_def
  metadata_section_def schema_section_def snapshots_section_def scan_section_def
  summary_section_def columns_def

lemmas example_defs = warehouse_with_def two_warehouses_def orders_catalog_def
  orders_table_def legacy_table_def empty_table_def dangling_table_def detached_table_def
  corrupt_table_def orders_schema_def legacy_schema_def first_snapshot_def orders_frame_def


lemma snd_scan_section:
  "current_snapshot t = Inr cur \<Longrightarrow> scan_to_pandas t = Inr df \<Longrightarrow>
     snd (scan_section t) = Inr ()"
  by (cases cur) (simp_all add: snd_scan_section_none snd_scan_section_some)


lemma errors_handler:
  "errors_of (handle_exception p n e) =
     [case e of
        NoSuchTableError m \<Rightarrow> Line ERROR Metadata ''Table not found: {}'' [StrArg n]
      | ModuleNotFoundError m \<Rightarrow> Line ERROR General ''Missing Python module: {}'' [StrArg m]
      | OtherException m \<Rightarrow> Line ERROR General ''Validation failed: {}'' [StrArg m]]"
  by (cases e) simp_all

lemma example_world:
  "path_exists (warehouse_with t) ''/tmp/wh''"
  "load_catalog (warehouse_with t) ''/tmp/wh'' = Inr (orders_catalog t)"
  "orders_catalog t ''orders'' = Inr t"
  "orders_catalog t ''ghost'' = Inl (NoSuchTableError ''no such table'')"
  by (simp_all add: warehouse_with_def orders_catalog_def)


lemma corrupt_raises:
  "snd (try_body (warehouse_with corrupt_table) ''/tmp/wh'' ''orders'') =
     Inl (OtherException ''corrupt file'')"
  by (simp add: body_defs run_defs example_defs)

text \<open>Runs on streams that may refuse an output.\<close>

lemma replay_split:
  "\<exists>rest. tr = fst (replay io tr) @ rest \<and> (snd (replay io tr) \<noteq> None \<longrightarrow> rest \<noteq> [])"
proof (induction tr)
  case Nil
  show ?case by simp
next
  case (Cons ev evs)
  then show ?case
    by (cases "refused io ev") (auto simp: case_prod_beta)
qed

lemma replay_all:
  "snd (replay io tr) = None \<Longrightarrow> fst (replay io tr) = tr"
  using replay_split [of tr io]
  by (induction tr) (auto simp: case_prod_beta split: option.splits)

lemma replay_working: "replay working_streams tr = (tr, None)"
proof (induction tr)
  case Nil
  show ?case by simp
next
  case (Cons ev evs)
  then show ?case by (cases ev) (simp_all add: working_streams_def)
qed

lemma errors_of_butlast: "errors_of tr = [] \<Longrightarrow> errors_of (butlast tr) = []"
  by (induction tr rule: findings.induct) (auto split: if_splits)

lemma check_table_errors_last: "errors_of (butlast (fst (check_table t n))) = []"
proof (cases "snd (metadata_section t n)")
  case (Inl e)
  then show ?thesis
    by (simp add: check_table_def run_simps errors_sections errors_of_butlast)
next
  case m: (Inr u)
  show ?thesis
  proof (cases "snd (schema_section t)")
    case (Inl e)
    with m show ?thesis
      by (simp add: check_table_def run_simps errors_sections errors_of_butlast)
  next
    case s: (Inr issues)
    show ?thesis
    proof (cases issues)
      case True
      with m s show ?thesis
        by (simp add: check_table_def run_simps errors_sections butlast_append)
    next
      case False
      with m s have "errors_of (fst (check_table t n)) = []"
        by (simp add: check_table_def run_simps errors_sections split: sum.splits)
      then show ?thesis by (rule errors_of_butlast)
    qed
  qed
qed

lemma try_body_errors_last: "errors_of (butlast (fst (try_body w p n))) = []"
proof (cases "path_exists w p")
  case False
  then show ?thesis by (simp add: try_body_missing)
next
  case True
  show ?thesis
  proof (cases "load_catalog w p")
    case (Inl e)
    with True show ?thesis by (simp add: try_body_no_catalog)
  next
    case (Inr cat)
    show ?thesis
    proof (cases "cat n")
      case (Inl e)
      with True Inr show ?thesis by (simp add: try_body_no_table)
    next
      case (Inr t)
      with True \<open>load_catalog w p = Inr cat\<close> show ?thesis
        using check_table_errors_last [of t n]
        by (simp add: try_body_loaded butlast_append)
    qed
  qed
qed

lemma try_body_on_raises:
  assumes "snd (try_body_on io w p n) = Inl e"
  shows "errors_of (fst (try_body_on io w p n)) = []"
proof (cases "snd (replay io (fst (try_body w p n)))")
  case None
  then have all: "fst (replay io (fst (try_body w p n))) = fst (try_body w p n)"
    by (rule replay_all)
  from None all have on: "try_body_on io w p n = try_body w p n"
    by (simp add: try_body_on_def case_prod_beta)
  with assms show ?thesis by (simp add: try_body_raises)
next
  case (Some e')
  obtain rest where rest: "fst (try_body w p n) = fst (replay io (fst (try_body w p n))) @ rest"
    and ne: "rest \<noteq> []"
    using replay_split [of "fst (try_body w p n)" io] Some by auto
  have "errors_of (butlast (fst (replay io (fst (try_body w p n))) @ rest)) = []"
    using try_body_errors_last [of w p n] rest by simp
  with ne have "errors_of (fst (replay io (fst (try_body w p n)))) = []"
    by (simp add: butlast_append)
  with Some show ?thesis by (simp add: try_body_on_def case_prod_beta)
qed

lemma validate_on_working:
  "validate_iceberg_table_on working_streams w p n =
     (fst (validate_iceberg_table w p n), Inr (snd (validate_iceberg_table w p n)))"
  by (simp add: validate_iceberg_table_on_def try_body_on_def replay_working
      validate_iceberg_table_def split: prod.splits sum.splits)

lemma fields_loop_no_error:
  "with_severity ERROR (fst (fields_loop fs ([], False))) = []"
  by (rule with_severity_none) (simp add: fields_loop_lines)

lemma narrow_raises:
  "snd (try_body_on narrow_streams (warehouse_with orders_table) ''/tmp/wh'' ''orders'') =
     Inl (OtherException ''UnicodeEncodeError'')"
  by (simp add: try_body_on_def body_defs run_defs example_defs narrow_streams_def)

lemma corrupt_raises_on:
  "snd (try_body_on working_streams (warehouse_with corrupt_table) ''/tmp/wh'' ''orders'') =
     Inl (OtherException ''corrupt file'')"
  by (simp add: try_body_on_def replay_working corrupt_raises case_prod_beta)




section \<open>Claims\<close>

text \<open>
  In every statement \<open>w\<close> is the world, \<open>p\<close> the warehouse path, \<open>n\<close> the table
  name and \<open>t\<close> the table that the catalog of \<open>p\<close> answers for \<open>n\<close>. A claim about a
  table whose metadata loads assumes that the accesses made before the point in question
  return a value.
\<close>

text \<open>
  Claim C1 says that a field whose \<open>field_id\<close> is not positive fails the run although
  no ERROR line is produced for it. The source prints one: the summary line of line 71,
  with the cross mark, once after the loop. As amended: when the schema has such a field
  the run returns \<open>False\<close>, the report holds the WARNING line that carries the
  identifier of the field, the loop over the fields prints no ERROR line, and the run
  prints exactly one ERROR line, the summary line of the schema section.
\<close>

theorem field_id_issue_fails:
  assumes "path_exists w p" and "load_catalog w p = Inr cat" and "cat n = Inr t"
    and "location t = Inr loc" and "format_version t = Inr v" and "table_uuid t = Inr u"
    and "schema t = Inr s" and "f \<in> set (schema_fields s)" and "field_id f \<le> 0"
  shows "snd (validate_iceberg_table w p n) = False
       \<and> Line WARNING Schema ''WARNING: Invalid field ID {}'' [IntArg (field_id f)]
           \<in> set (findings (fst (validate_iceberg_table w p n)))
       \<and> with_severity ERROR (fst (fields_loop (schema_fields s) ([], False))) = []
       \<and> errors_of (fst (validate_iceberg_table w p n)) =
           [Line ERROR Schema
              ''Field ID issues detected - schema evolution may not work correctly'' []]"
proof -
  note run = run_with_issues [OF assms]
  have warn: "Line WARNING Schema ''WARNING: Invalid field ID {}'' [IntArg (field_id f)]
      \<in> set (findings (fst (schema_section t)))"
    using assms(7-9) by (rule schema_section_warning)
  have errs: "errors_of (fst (validate_iceberg_table w p n)) =
      [Line ERROR Schema
         ''Field ID issues detected - schema evolution may not work correctly'' []]"
    by (simp add: run errors_sections)
  show ?thesis
    using warn by (simp add: errs fields_loop_no_error) (simp add: run)
qed

theorem field_id_issue_fails_witness:
  "path_exists (warehouse_with legacy_table) ''/tmp/wh''
   \<and> load_catalog (warehouse_with legacy_table) ''/tmp/wh'' = Inr (orders_catalog legacy_table)
   \<and> orders_catalog legacy_table ''orders'' = Inr legacy_table
   \<and> location legacy_table = Inr ''/tmp/wh/orders''
   \<and> format_version legacy_table = Inr 2
   \<and> table_uuid legacy_table = Inr ''0f0e''
   \<and> schema legacy_table = Inr legacy_schema
   \<and> \<lparr>field_id = 0, field_name = ''amount'', field_type = ''double''\<rparr>
        \<in> set (schema_fields legacy_schema)
   \<and> snd (validate_iceberg_table (warehouse_with legacy_table) ''/tmp/wh'' ''orders'') = False
   \<and> Line WARNING Schema ''WARNING: Invalid field ID {}'' [IntArg 0]
        \<in> set (findings (fst (validate_iceberg_table (warehouse_with legacy_table)
                                 ''/tmp/wh'' ''orders'')))
   \<and> with_severity ERROR (fst (fields_loop (schema_fields legacy_schema) ([], False))) = []
   \<and> errors_of (fst (validate_iceberg_table (warehouse_with legacy_table) ''/tmp/wh'' ''orders'')) =
        [Line ERROR Schema
           ''Field ID issues detected - schema evolution may not work correctly'' []]"
proof -
  have h: "location legacy_table = Inr ''/tmp/wh/orders''"
    "format_version legacy_table = Inr 2"
    "table_uuid legacy_table = Inr ''0f0e''"
    "schema legacy_table = Inr legacy_schema"
    "\<lparr>field_id = 0, field_name = ''amount'', field_type = ''double''\<rparr>
       \<in> set (schema_fields legacy_schema)"
    "field_id \<lparr>field_id = 0, field_name = ''amount'', field_type = ''double''\<rparr> \<le> 0"
    by (simp_all add: legacy_table_def orders_table_def legacy_schema_def)
  show ?thesis
    using h field_id_issue_fails [OF example_world(1-3) [of legacy_table] h]
    by (simp add: example_world)
qed

text \<open>
  Claim C1 as stated fails on the table \<open>legacy_table\<close>, whose second field has the
  identifier 0: the report of the run ends with an ERROR line.
\<close>

theorem field_id_issue_prints_error:
  "schema legacy_table = Inr legacy_schema
   \<and> \<lparr>field_id = 0, field_name = ''amount'', field_type = ''double''\<rparr>
        \<in> set (schema_fields legacy_schema)
   \<and> findings (fst (validate_iceberg_table (warehouse_with legacy_table) ''/tmp/wh'' ''orders'')) =
       [Line INFO Metadata ''Successfully loaded table: {}'' [StrArg ''orders''],
        Line INFO Metadata ''Location: {}'' [StrArg ''/tmp/wh/orders''],
        Line INFO Metadata ''Format version: {}'' [IntArg 2],
        Line INFO Metadata ''Table UUID: {}'' [StrArg ''0f0e''],
        Line INFO Schema ''Schema validation:'' [],
        Line INFO Schema ''Schema ID: {}'' [IntArg 0],
        Line INFO Schema ''Field count: {}'' [IntArg 2],
        Line INFO Schema ''- Field {}: {} ({})'' [IntArg 1, StrArg ''id'', StrArg ''long''],
        Line INFO Schema ''- Field {}: {} ({})''
          [IntArg 0, StrArg ''amount'', StrArg ''double''],
        Line WARNING Schema ''WARNING: Invalid field ID {}'' [IntArg 0],
        Line ERROR Schema
          ''Field ID issues detected - schema evolution may not work correctly'' []]
   \<and> errors_of (fst (validate_iceberg_table (warehouse_with legacy_table) ''/tmp/wh'' ''orders'')) =
       [Line ERROR Schema
          ''Field ID issues detected - schema evolution may not work correctly'' []]"
  by (simp add: body_defs run_defs example_defs)

text \<open>
  Claim C2 says that a field identifier that is not positive does not stop the later
  sections. The source returns at line 72, before the snapshots are read. As amended:
  under the same conditions the run returns \<open>False\<close>, prints no line of the snapshot
  section and no line of the scan section, does not call the scan, and the last line of
  the report is the ERROR summary line of the schema section.
\<close>

theorem field_id_issue_is_terminal:
  assumes "path_exists w p" and "load_catalog w p = Inr cat" and "cat n = Inr t"
    and "location t = Inr loc" and "format_version t = Inr v" and "table_uuid t = Inr u"
    and "schema t = Inr s" and "f \<in> set (schema_fields s)" and "field_id f \<le> 0"
  shows "snd (validate_iceberg_table w p n) = False
       \<and> with_category Snapshot (findings (fst (validate_iceberg_table w p n))) = []
       \<and> with_category Scan (findings (fst (validate_iceberg_table w p n))) = []
       \<and> \<not> scan_attempted (fst (validate_iceberg_table w p n))
       \<and> last (findings (fst (validate_iceberg_table w p n))) =
           Line ERROR Schema
             ''Field ID issues detected - schema evolution may not work correctly'' []"
proof -
  note run = run_with_issues [OF assms]
  have "\<not> scan_attempted (fst (metadata_section t n))"
    and "\<not> scan_attempted (fst (schema_section t))"
    by (simp_all add: scan_attempted_calls calls_sections)
  then show ?thesis
    by (simp add: run category_metadata_section category_schema_section)
qed

theorem field_id_issue_is_terminal_witness:
  "path_exists (warehouse_with legacy_table) ''/tmp/wh''
   \<and> load_catalog (warehouse_with legacy_table) ''/tmp/wh'' = Inr (orders_catalog legacy_table)
   \<and> orders_catalog legacy_table ''orders'' = Inr legacy_table
   \<and> location legacy_table = Inr ''/tmp/wh/orders''
   \<and> format_version legacy_table = Inr 2
   \<and> table_uuid legacy_table = Inr ''0f0e''
   \<and> schema legacy_table = Inr legacy_schema
   \<and> \<lparr>field_id = 0, field_name = ''amount'', field_type = ''double''\<rparr>
        \<in> set (schema_fields legacy_schema)
   \<and> snd (validate_iceberg_table (warehouse_with legacy_table) ''/tmp/wh'' ''orders'') = False
   \<and> with_category Snapshot
        (findings (fst (validate_iceberg_table (warehouse_with legacy_table)
                          ''/tmp/wh'' ''orders''))) = []
   \<and> with_category Scan
        (findings (fst (validate_iceberg_table (warehouse_with legacy_table)
                          ''/tmp/wh'' ''orders''))) = []
   \<and> \<not> scan_attempted (fst (validate_iceberg_table (warehouse_with legacy_table)
                                ''/tmp/wh'' ''orders''))
   \<and> last (findings (fst (validate_iceberg_table (warehouse_with legacy_table)
                             ''/tmp/wh'' ''orders''))) =
        Line ERROR Schema
          ''Field ID issues detected - schema evolution may not work correctly'' []"
proof -
  have h: "location legacy_table = Inr ''/tmp/wh/orders''"
    "format_version legacy_table = Inr 2"
    "table_uuid legacy_table = Inr ''0f0e''"
    "schema legacy_table = Inr legacy_schema"
    "\<lparr>field_id = 0, field_name = ''amount'', field_type = ''double''\<rparr>
       \<in> set (schema_fields legacy_schema)"
    "field_id \<lparr>field_id = 0, field_name = ''amount'', field_type = ''double''\<rparr> \<le> 0"
    by (simp_all add: legacy_table_def orders_table_def legacy_schema_def)
  show ?thesis
    using h field_id_issue_is_terminal [OF example_world(1-3) [of legacy_table] h]
    by (simp add: example_world)
qed

text \<open>
  Claim C2 as stated fails on the table \<open>legacy_table\<close>: its metadata loads, it has a
  snapshot and a current snapshot and its scan would decode, yet the run ends with the
  schema section; no snapshot line, no scan line and no scan call follow.
\<close>

theorem field_id_issue_skips_snapshots:
  "snapshots legacy_table = Inr [first_snapshot]
   \<and> current_snapshot legacy_table = Inr (Some first_snapshot)
   \<and> scan_to_pandas legacy_table = Inr orders_frame
   \<and> validate_iceberg_table (warehouse_with legacy_table) ''/tmp/wh'' ''orders'' =
       ([Call (OsPathExists ''/tmp/wh''), Call (LoadCatalog ''/tmp/wh''),
         Call (LoadTable ''orders''),
         Print (Line INFO Metadata ''Successfully loaded table: {}'' [StrArg ''orders'']),
         Print (Line INFO Metadata ''Location: {}'' [StrArg ''/tmp/wh/orders'']),
         Print (Line INFO Metadata ''Format version: {}'' [IntArg 2]),
         Print (Line INFO Metadata ''Table UUID: {}'' [StrArg ''0f0e'']),
         Print (Line INFO Schema ''Schema validation:'' []),
         Print (Line INFO Schema ''Schema ID: {}'' [IntArg 0]),
         Print (Line INFO Schema ''Field count: {}'' [IntArg 2]),
         Print (Line INFO Schema ''- Field {}: {} ({})''
                  [IntArg 1, StrArg ''id'', StrArg ''long'']),
         Print (Line INFO Schema ''- Field {}: {} ({})''
                  [IntArg 0, StrArg ''amount'', StrArg ''double'']),
         Print (Line WARNING Schema ''WARNING: Invalid field ID {}'' [IntArg 0]),
         Print (Line ERROR Schema
                  ''Field ID issues detected - schema evolution may not work correctly'' [])],
        False)
   \<and> with_category Snapshot
        (findings (fst (validate_iceberg_table (warehouse_with legacy_table)
                          ''/tmp/wh'' ''orders''))) = []
   \<and> \<not> scan_attempted (fst (validate_iceberg_table (warehouse_with legacy_table)
                                ''/tmp/wh'' ''orders''))"
  by (simp add: body_defs run_defs example_defs)

text \<open>
  Claim C3. When \<^verbatim>\<open>os.path.exists(warehouse_path)\<close> is false, the run returns
  \<open>False\<close>; the report is exactly one line, the ERROR line of the metadata section that
  carries the missing path, so no line of the schema or snapshot section is printed; and
  the only external call is the existence test itself, neither \<^verbatim>\<open>load_catalog\<close> nor
  \<^verbatim>\<open>load_table\<close> is called.
\<close>

theorem missing_warehouse_fails:
  assumes "\<not> path_exists w p"
  shows "snd (validate_iceberg_table w p n) = False
       \<and> findings (fst (validate_iceberg_table w p n)) =
           [Line ERROR Metadata ''Warehouse path does not exist: {}'' [StrArg p]]
       \<and> calls_of (fst (validate_iceberg_table w p n)) = [OsPathExists p]"
  using assms by (simp add: validate_alt try_body_missing)

theorem missing_warehouse_fails_witness:
  "\<not> path_exists (warehouse_with orders_table) ''/tmp/gone''
   \<and> snd (validate_iceberg_table (warehouse_with orders_table) ''/tmp/gone'' ''orders'') = False
   \<and> findings (fst (validate_iceberg_table (warehouse_with orders_table) ''/tmp/gone'' ''orders'')) =
       [Line ERROR Metadata ''Warehouse path does not exist: {}'' [StrArg ''/tmp/gone'']]
   \<and> calls_of (fst (validate_iceberg_table (warehouse_with orders_table) ''/tmp/gone'' ''orders'')) =
       [OsPathExists ''/tmp/gone'']"
proof -
  have h: "\<not> path_exists (warehouse_with orders_table) ''/tmp/gone''"
    by (simp add: warehouse_with_def)
  show ?thesis
    using h missing_warehouse_fails [OF h, of "''orders''"] by simp
qed

text \<open>
  Claim C4. When the warehouse path exists, the catalog loads and \<^verbatim>\<open>load_table\<close>
  raises \<^verbatim>\<open>NoSuchTableError\<close>, the run returns \<open>False\<close>; its only ERROR line is the
  line of the metadata section that carries the table name; the report is that line and
  the plain line that follows it in the handler, so it holds no line of the schema, the
  snapshot or the scan section.
\<close>

theorem missing_table_fails:
  assumes "path_exists w p" and "load_catalog w p = Inr cat"
    and "cat n = Inl (NoSuchTableError m)"
  shows "snd (validate_iceberg_table w p n) = False
       \<and> errors_of (fst (validate_iceberg_table w p n)) =
           [Line ERROR Metadata ''Table not found: {}'' [StrArg n]]
       \<and> findings (fst (validate_iceberg_table w p n)) =
           [Line ERROR Metadata ''Table not found: {}'' [StrArg n],
            Line INFO Metadata ''Verify the table exists in warehouse: {}'' [StrArg p]]
       \<and> with_category Schema (findings (fst (validate_iceberg_table w p n))) = []
       \<and> with_category Snapshot (findings (fst (validate_iceberg_table w p n))) = []
       \<and> with_category Scan (findings (fst (validate_iceberg_table w p n))) = []"
  using assms
  by (simp add: validate_alt try_body_no_table errors_of_def with_severity_def
      with_category_def)

theorem missing_table_fails_witness:
  "path_exists (warehouse_with orders_table) ''/tmp/wh''
   \<and> load_catalog (warehouse_with orders_table) ''/tmp/wh'' = Inr (orders_catalog orders_table)
   \<and> orders_catalog orders_table ''ghost'' = Inl (NoSuchTableError ''no such table'')
   \<and> snd (validate_iceberg_table (warehouse_with orders_table) ''/tmp/wh'' ''ghost'') = False
   \<and> errors_of (fst (validate_iceberg_table (warehouse_with orders_table) ''/tmp/wh'' ''ghost'')) =
       [Line ERROR Metadata ''Table not found: {}'' [StrArg ''ghost'']]
   \<and> findings (fst (validate_iceberg_table (warehouse_with orders_table) ''/tmp/wh'' ''ghost'')) =
       [Line ERROR Metadata ''Table not found: {}'' [StrArg ''ghost''],
        Line INFO Metadata ''Verify the table exists in warehouse: {}'' [StrArg ''/tmp/wh'']]
   \<and> with_category Schema
        (findings (fst (validate_iceberg_table (warehouse_with orders_table)
                          ''/tmp/wh'' ''ghost''))) = []
   \<and> with_category Snapshot
        (findings (fst (validate_iceberg_table (warehouse_with orders_table)
                          ''/tmp/wh'' ''ghost''))) = []
   \<and> with_category Scan
        (findings (fst (validate_iceberg_table (warehouse_with orders_table)
                          ''/tmp/wh'' ''ghost''))) = []"
  using missing_table_fails [OF example_world(1,2,4) [of orders_table]]
  by (simp add: example_world)

text \<open>
  Claim C5. For a table of format version 2 whose accesses all return a value, whose
  field identifiers are all positive and which has at least one snapshot, the run
  returns \<open>True\<close> and the report holds no ERROR line.
\<close>

theorem valid_table_passes:
  assumes "path_exists w p" and "load_catalog w p = Inr cat" and "cat n = Inr t"
    and "location t = Inr loc" and "format_version t = Inr 2" and "table_uuid t = Inr u"
    and "schema t = Inr s" and "\<forall>f \<in> set (schema_fields s). 0 < field_id f"
    and "snapshots t = Inr ss" and "ss \<noteq> []"
    and "current_snapshot t = Inr cur" and "scan_to_pandas t = Inr df"
    and "last_sequence_number t = Inr k" and "last_updated_ms t = Inr ms"
    and "properties t = Inr ps"
  shows "snd (validate_iceberg_table w p n) = True
       \<and> errors_of (fst (validate_iceberg_table w p n)) = []"
proof -
  note run = run_clean [OF assms(1-9)]
  have sc: "snd (scan_section t) = Inr ()"
    using assms(11,12) by (rule snd_scan_section)
  have su: "snd (summary_section t n) = Inr True"
    using assms(13-15) by (rule snd_summary_section)
  show ?thesis
    by (simp add: validate_alt run sc su errors_sections)
qed

theorem valid_table_passes_witness:
  "path_exists (warehouse_with orders_table) ''/tmp/wh''
   \<and> load_catalog (warehouse_with orders_table) ''/tmp/wh'' = Inr (orders_catalog orders_table)
   \<and> orders_catalog orders_table ''orders'' = Inr orders_table
   \<and> location orders_table = Inr ''/tmp/wh/orders''
   \<and> format_version orders_table = Inr 2
   \<and> table_uuid orders_table = Inr ''0f0e''
   \<and> schema orders_table = Inr orders_schema
   \<and> map field_id (schema_fields orders_schema) = [1, 2]
   \<and> snapshots orders_table = Inr [first_snapshot]
   \<and> current_snapshot orders_table = Inr (Some first_snapshot)
   \<and> scan_to_pandas orders_table = Inr orders_frame
   \<and> last_sequence_number orders_table = Inr 1
   \<and> last_updated_ms orders_table = Inr 1700000000000
   \<and> properties orders_table = Inr []
   \<and> snd (validate_iceberg_table (warehouse_with orders_table) ''/tmp/wh'' ''orders'') = True
   \<and> errors_of (fst (validate_iceberg_table (warehouse_with orders_table) ''/tmp/wh'' ''orders'')) = []"
proof -
  have h: "location orders_table = Inr ''/tmp/wh/orders''"
    "format_version orders_table = Inr 2"
    "table_uuid orders_table = Inr ''0f0e''"
    "schema orders_table = Inr orders_schema"
    "\<forall>f \<in> set (schema_fields orders_schema). 0 < field_id f"
    "snapshots orders_table = Inr [first_snapshot]"
    "[first_snapshot] \<noteq> []"
    "current_snapshot orders_table = Inr (Some first_snapshot)"
    "scan_to_pandas orders_table = Inr orders_frame"
    "last_sequence_number orders_table = Inr 1"
    "last_updated_ms orders_table = Inr 1700000000000"
    "properties orders_table = Inr []"
    by (simp_all add: orders_table_def orders_schema_def)
  have ids: "map field_id (schema_fields orders_schema) = [1, 2]"
    by (simp add: orders_schema_def)
  show ?thesis
    using h(1-4,6,8-12) ids valid_table_passes [OF example_world(1-3) [of orders_table] h]
    by (simp add: example_world)
qed

text \<open>
  Claim C6. For a table whose snapshot sequence is empty and whose metadata and schema
  are otherwise valid (the accesses return a value, the field identifiers are positive,
  the current snapshot is a pointer into the snapshot sequence), the report holds the
  WARNING line of the empty snapshot list, the scan is not called, and the run returns
  \<open>True\<close> with no ERROR line.
\<close>

theorem empty_table_warns:
  assumes "path_exists w p" and "load_catalog w p = Inr cat" and "cat n = Inr t"
    and "location t = Inr loc" and "format_version t = Inr v" and "table_uuid t = Inr u"
    and "schema t = Inr s" and "\<forall>f \<in> set (schema_fields s). 0 < field_id f"
    and "snapshots t = Inr []"
    and "current_snapshot t = Inr cur" and "wf_current [] cur"
    and "last_sequence_number t = Inr k" and "last_updated_ms t = Inr ms"
    and "properties t = Inr ps"
  shows "Line WARNING Snapshot ''WARNING: No snapshots found (table is empty)'' []
           \<in> set (findings (fst (validate_iceberg_table w p n)))
       \<and> \<not> scan_attempted (fst (validate_iceberg_table w p n))
       \<and> snd (validate_iceberg_table w p n) = True
       \<and> errors_of (fst (validate_iceberg_table w p n)) = []"
proof -
  note run = run_clean [OF assms(1-9)]
  have cur: "current_snapshot t = Inr None"
    using assms(10,11) by (cases cur) (simp_all add: wf_current_def)
  have sc: "snd (scan_section t) = Inr ()"
    using cur by (rule snd_scan_section_none)
  have su: "snd (summary_section t n) = Inr True"
    using assms(12-14) by (rule snd_summary_section)
  have no_scan: "\<not> scan_attempted (fst (scan_section t))"
    by (simp add: scan_attempted_scan_section cur)
  have quiet: "\<not> scan_attempted (fst (metadata_section t n))"
    "\<not> scan_attempted (fst (schema_section t))"
    "\<not> scan_attempted (fst (snapshots_section t))"
    "\<not> scan_attempted (fst (summary_section t n))"
    by (simp_all add: scan_attempted_calls calls_sections)
  show ?thesis
    using no_scan quiet
    by (simp add: validate_alt run sc su errors_sections
        snapshots_section_empty [OF assms(9)])
qed

theorem empty_table_warns_witness:
  "path_exists (warehouse_with empty_table) ''/tmp/wh''
   \<and> load_catalog (warehouse_with empty_table) ''/tmp/wh'' = Inr (orders_catalog empty_table)
   \<and> orders_catalog empty_table ''orders'' = Inr empty_table
   \<and> location empty_table = Inr ''/tmp/wh/orders''
   \<and> format_version empty_table = Inr 2
   \<and> table_uuid empty_table = Inr ''0f0e''
   \<and> schema empty_table = Inr orders_schema
   \<and> map field_id (schema_fields orders_schema) = [1, 2]
   \<and> snapshots empty_table = Inr []
   \<and> current_snapshot empty_table = Inr None
   \<and> wf_current [] None
   \<and> last_sequence_number empty_table = Inr 1
   \<and> last_updated_ms empty_table = Inr 1700000000000
   \<and> properties empty_table = Inr []
   \<and> Line WARNING Snapshot ''WARNING: No snapshots found (table is empty)'' []
        \<in> set (findings (fst (validate_iceberg_table (warehouse_with empty_table)
                                 ''/tmp/wh'' ''orders'')))
   \<and> \<not> scan_attempted (fst (validate_iceberg_table (warehouse_with empty_table)
                                ''/tmp/wh'' ''orders''))
   \<and> snd (validate_iceberg_table (warehouse_with empty_table) ''/tmp/wh'' ''orders'') = True
   \<and> errors_of (fst (validate_iceberg_table (warehouse_with empty_table) ''/tmp/wh'' ''orders'')) = []"
proof -
  have h: "location empty_table = Inr ''/tmp/wh/orders''"
    "format_version empty_table = Inr 2"
    "table_uuid empty_table = Inr ''0f0e''"
    "schema empty_table = Inr orders_schema"
    "\<forall>f \<in> set (schema_fields orders_schema). 0 < field_id f"
    "snapshots empty_table = Inr []"
    "current_snapshot empty_table = Inr None"
    "wf_current [] None"
    "last_sequence_number empty_table = Inr 1"
    "last_updated_ms empty_table = Inr 1700000000000"
    "properties empty_table = Inr []"
    by (simp_all add: empty_table_def orders_table_def orders_schema_def wf_current_def)
  have ids: "map field_id (schema_fields orders_schema) = [1, 2]"
    by (simp add: orders_schema_def)
  show ?thesis
    using h(1-4,6-11) ids empty_table_warns [OF example_world(1-3) [of empty_table] h]
    by (simp add: example_world)
qed



text \<open>
  Claim C8. The run is a function of the warehouse path, the table name and the state
  observed for them: two runs that observe the same state, in whatever worlds, print
  the same events in the same order and return the same verdict. The script reads no
  clock and prints no time of its own.
\<close>

theorem deterministic_in_observed_state:
  assumes "observed w p n = observed w' p n"
  shows "validate_iceberg_table w p n = validate_iceberg_table w' p n"
proof -
  have "try_body w p n = try_body w' p n"
    using assms
    by (auto simp: observed_def try_body_def run_bind_def invoke_def
        split: sum.splits)
  then show ?thesis by (simp add: validate_iceberg_table_def)
qed

theorem deterministic_in_observed_state_witness:
  "\<not> path_exists (warehouse_with orders_table) ''/tmp/other''
   \<and> path_exists (two_warehouses orders_table) ''/tmp/other''
   \<and> observed (warehouse_with orders_table) ''/tmp/wh'' ''orders'' =
       observed (two_warehouses orders_table) ''/tmp/wh'' ''orders''
   \<and> validate_iceberg_table (warehouse_with orders_table) ''/tmp/wh'' ''orders'' =
       validate_iceberg_table (two_warehouses orders_table) ''/tmp/wh'' ''orders''"
proof -
  have h: "observed (warehouse_with orders_table) ''/tmp/wh'' ''orders'' =
      observed (two_warehouses orders_table) ''/tmp/wh'' ''orders''"
    by (simp add: observed_def warehouse_with_def two_warehouses_def)
  show ?thesis
    using h deterministic_in_observed_state [OF h]
    by (simp add: warehouse_with_def two_warehouses_def)
qed

text \<open>
  Claim C9 says that the function never lets an exception out and turns every exception
  into one ERROR line that carries its message. Neither holds on the code. The handlers
  themselves print, outside any \<^verbatim>\<open>try\<close>, so an output refused there leaves the
  function; and the handler of \<^verbatim>\<open>NoSuchTableError\<close> prints the table name and drops
  the message. As amended, for exceptions that are subclasses of \<^verbatim>\<open>Exception\<close>: when
  the streams take the output of the handlers, the function returns a verdict for every
  input; every exception raised in the body of the \<^verbatim>\<open>try\<close>, by a collaborator or by
  an output, is caught, the events before it are kept and followed by those of its
  handler, the verdict is \<open>False\<close>, and the whole report holds exactly one ERROR line,
  which carries the message of the exception for \<^verbatim>\<open>ModuleNotFoundError\<close> and for any
  other exception, and the table name for \<^verbatim>\<open>NoSuchTableError\<close>.
\<close>

theorem exceptions_are_caught:
  assumes "\<forall>e. snd (replay io (handle_exception p n e)) = None"
  shows "(\<exists>verdict. snd (validate_iceberg_table_on io w p n) = Inr verdict)
       \<and> (\<forall>e. snd (try_body_on io w p n) = Inl e \<longrightarrow>
            validate_iceberg_table_on io w p n =
              (fst (try_body_on io w p n) @ handle_exception p n e, Inr False)
          \<and> errors_of (fst (validate_iceberg_table_on io w p n)) =
              [case e of
                 NoSuchTableError m \<Rightarrow> Line ERROR Metadata ''Table not found: {}'' [StrArg n]
               | ModuleNotFoundError m \<Rightarrow>
                   Line ERROR General ''Missing Python module: {}'' [StrArg m]
               | OtherException m \<Rightarrow>
                   Line ERROR General ''Validation failed: {}'' [StrArg m]])"
proof -
  have handled: "replay io (handle_exception p n e) = (handle_exception p n e, None)" for e
    using assms replay_all [of io "handle_exception p n e"]
    by (simp add: prod_eq_iff)
  have returns: "\<exists>verdict. snd (validate_iceberg_table_on io w p n) = Inr verdict"
    by (cases "snd (try_body_on io w p n)")
      (auto simp: validate_iceberg_table_on_def handled case_prod_beta)
  have caught: "validate_iceberg_table_on io w p n =
        (fst (try_body_on io w p n) @ handle_exception p n e, Inr False)
      \<and> errors_of (fst (validate_iceberg_table_on io w p n)) =
          [case e of
             NoSuchTableError m \<Rightarrow> Line ERROR Metadata ''Table not found: {}'' [StrArg n]
           | ModuleNotFoundError m \<Rightarrow>
               Line ERROR General ''Missing Python module: {}'' [StrArg m]
           | OtherException m \<Rightarrow>
               Line ERROR General ''Validation failed: {}'' [StrArg m]]"
    if "snd (try_body_on io w p n) = Inl e" for e
    using that try_body_on_raises [OF that]
    by (simp add: validate_iceberg_table_on_def handled case_prod_beta errors_handler)
  show ?thesis using returns caught by blast
qed

theorem exceptions_are_caught_witness:
  "(\<forall>e. snd (replay narrow_streams (handle_exception ''/tmp/wh'' ''orders'' e)) = None)
   \<and> snd (try_body_on narrow_streams (warehouse_with orders_table) ''/tmp/wh'' ''orders'') =
       Inl (OtherException ''UnicodeEncodeError'')
   \<and> validate_iceberg_table_on narrow_streams (warehouse_with orders_table)
         ''/tmp/wh'' ''orders'' =
       ([Call (OsPathExists ''/tmp/wh''), Call (LoadCatalog ''/tmp/wh''),
         Call (LoadTable ''orders''),
         Print (Line INFO Metadata ''Successfully loaded table: {}'' [StrArg ''orders'']),
         Print (Line ERROR General ''Validation failed: {}'' [StrArg ''UnicodeEncodeError'']),
         PrintExc (OtherException ''UnicodeEncodeError'')],
        Inr False)
   \<and> errors_of (fst (validate_iceberg_table_on narrow_streams (warehouse_with orders_table)
                        ''/tmp/wh'' ''orders'')) =
       [Line ERROR General ''Validation failed: {}'' [StrArg ''UnicodeEncodeError'']]
   \<and> (\<forall>e. snd (replay working_streams (handle_exception ''/tmp/wh'' ''orders'' e)) = None)
   \<and> snd (try_body_on working_streams (warehouse_with corrupt_table) ''/tmp/wh'' ''orders'') =
       Inl (OtherException ''corrupt file'')
   \<and> snd (validate_iceberg_table_on working_streams (warehouse_with corrupt_table)
             ''/tmp/wh'' ''orders'') = Inr False
   \<and> errors_of (fst (validate_iceberg_table_on working_streams (warehouse_with corrupt_table)
                        ''/tmp/wh'' ''orders'')) =
       [Line ERROR General ''Validation failed: {}'' [StrArg ''corrupt file'']]"
proof -
  have narrow: "snd (replay narrow_streams (handle_exception ''/tmp/wh'' ''orders'' e)) = None"
    for e
    by (cases e) (simp_all add: narrow_streams_def)
  then have narrow_all:
    "\<forall>e. snd (replay narrow_streams (handle_exception ''/tmp/wh'' ''orders'' e)) = None"
    by blast
  have working_all:
    "\<forall>e. snd (replay working_streams (handle_exception ''/tmp/wh'' ''orders'' e)) = None"
    by (simp add: replay_working)
  have prefix: "fst (try_body_on narrow_streams (warehouse_with orders_table)
        ''/tmp/wh'' ''orders'') =
      [Call (OsPathExists ''/tmp/wh''), Call (LoadCatalog ''/tmp/wh''),
       Call (LoadTable ''orders''),
       Print (Line INFO Metadata ''Successfully loaded table: {}'' [StrArg ''orders''])]"
    by (simp add: try_body_on_def body_defs run_defs example_defs narrow_streams_def)
  show ?thesis
    using narrow_all working_all narrow_raises corrupt_raises_on prefix
      try_body_on_raises [OF corrupt_raises_on]
      exceptions_are_caught [OF narrow_all, of "warehouse_with orders_table"]
      exceptions_are_caught [OF working_all, of "warehouse_with corrupt_table"]
    by simp
qed

text \<open>
  Claim C9 as stated fails twice. On a standard output without the cross mark and a
  warehouse path that does not exist, the \<^verbatim>\<open>print\<close> of line 33 raises, the handler of
  line 127 prints the cross mark again, and that exception leaves the function: no
  verdict, no line. And where \<^verbatim>\<open>load_table\<close> raises \<^verbatim>\<open>NoSuchTableError\<close> with the
  message \<^verbatim>\<open>no such table\<close>, on streams that take everything, no line of the report
  carries that message.
\<close>

theorem handler_output_can_escape:
  "validate_iceberg_table_on markless_streams (warehouse_with orders_table)
       ''/tmp/gone'' ''orders'' =
     ([Call (OsPathExists ''/tmp/gone'')], Inl (OtherException ''UnicodeEncodeError''))
   \<and> orders_catalog orders_table ''ghost'' = Inl (NoSuchTableError ''no such table'')
   \<and> validate_iceberg_table_on working_streams (warehouse_with orders_table)
         ''/tmp/wh'' ''ghost'' =
       ([Call (OsPathExists ''/tmp/wh''), Call (LoadCatalog ''/tmp/wh''),
         Call (LoadTable ''ghost''),
         Print (Line ERROR Metadata ''Table not found: {}'' [StrArg ''ghost'']),
         Print (Line INFO Metadata ''Verify the table exists in warehouse: {}''
                  [StrArg ''/tmp/wh''])],
        Inr False)
   \<and> mentioning (StrArg ''no such table'')
        (findings (fst (validate_iceberg_table_on working_streams (warehouse_with orders_table)
                          ''/tmp/wh'' ''ghost''))) = []"
  by (simp add: validate_iceberg_table_on_def try_body_on_def body_defs run_defs example_defs
      markless_streams_def working_streams_def mentioning_def)



end
